theory Spec2Isabelle
  imports Main "HOL-Library.Word"
begin

section \<open>Python values, exceptions and the result of a call\<close>

text \<open>
  The orchestrator (\<^verbatim>\<open>services/ai-orchestrator\<close>) handles dynamically typed data: the
  fields it reads out of a parsed reply are whatever \<^verbatim>\<open>json.loads\<close> produced. A Python
  value is therefore a datatype of the values JSON decoding yields. \<open>PyNone\<close> is Python's
  \<^verbatim>\<open>None\<close>; a float is kept as the 64 bits of its binary64 representation (the code never
  computes on one, it only stores floats and tests their truth value); a dictionary is an
  association list in insertion order, looked up from the front.
\<close>

datatype pyval =
    PyNone
  | PyBool bool
  | PyInt int
  | PyFloat "64 word"
  | PyStr string
  | PyList "pyval list"
  | PyDict "(string \<times> pyval) list"

type_synonym dict = "(string \<times> pyval) list"

text \<open>
  An exception is its class and the text \<^verbatim>\<open>str(e)\<close> gives. Every value of \<open>exn\<close> is an
  instance of Python's \<^verbatim>\<open>Exception\<close>: the failures of the collaborators and of the code
  itself. \<open>PlainException\<close> is \<^verbatim>\<open>Exception\<close> itself; \<open>OtherException name\<close> is any other
  subclass (the remote client's connection, authentication and status errors, \<^verbatim>\<open>OSError\<close>,
  \<^verbatim>\<open>RecursionError\<close>, ...), none of which derives from \<^verbatim>\<open>json.JSONDecodeError\<close>.
\<close>

datatype exn_class =
    PlainException
  | ValueError
  | JSONDecodeError
  | AttributeError
  | OtherException string

datatype exn = Exn (exn_cls: exn_class) (exn_str: string)

text \<open>
  Python raises more than that. A signal is an instance of \<^verbatim>\<open>BaseException\<close> outside the
  \<^verbatim>\<open>Exception\<close> hierarchy: \<^verbatim>\<open>asyncio.CancelledError\<close>, which the event loop throws into a
  coroutine at its \<^verbatim>\<open>await\<close> when the task is cancelled, \<^verbatim>\<open>KeyboardInterrupt\<close> and
  \<^verbatim>\<open>SystemExit\<close>. What leaves a statement is a failure or a signal.
\<close>

datatype signal = CancelledError | KeyboardInterrupt | SystemExit

datatype raised = Failure exn | Signal signal

text \<open>A call either raises (\<open>Inl\<close>) or returns (\<open>Inr\<close>).\<close>

definition and_then :: "'e + 'a \<Rightarrow> ('a \<Rightarrow> 'e + 'b) \<Rightarrow> 'e + 'b" where
  "and_then m f = (case m of Inl e \<Rightarrow> Inl e | Inr v \<Rightarrow> f v)"

text \<open>
  \<^verbatim>\<open>try: body  except C as e: handler\<close>: an exception of the body that the clause matches
  runs the handler, any other exception leaves the statement.
\<close>

definition try_except :: "'e + 'a \<Rightarrow> ('e \<Rightarrow> bool) \<Rightarrow> ('e \<Rightarrow> 'e + 'a) \<Rightarrow> 'e + 'a" where
  "try_except body matches handler =
     (case body of
        Inl e \<Rightarrow> if matches e then handler e else Inl e
      | Inr v \<Rightarrow> Inr v)"

text \<open>The class tests of the two \<^verbatim>\<open>except\<close> clauses.\<close>

definition isinstance_Exception :: "raised \<Rightarrow> bool" where
  "isinstance_Exception x = (case x of Failure e \<Rightarrow> True | Signal s \<Rightarrow> False)"

definition isinstance_JSONDecodeError :: "exn \<Rightarrow> bool" where
  "isinstance_JSONDecodeError e = (exn_cls e = JSONDecodeError)"

subsection \<open>Operations on values\<close>

definition squote :: string where
  "squote = [CHR 0x27]"

fun type_name :: "pyval \<Rightarrow> string" where
  "type_name PyNone = ''NoneType''"
| "type_name (PyBool b) = ''bool''"
| "type_name (PyInt i) = ''int''"
| "type_name (PyFloat f) = ''float''"
| "type_name (PyStr s) = ''str''"
| "type_name (PyList xs) = ''list''"
| "type_name (PyDict kvs) = ''dict''"

text \<open>
  \<^verbatim>\<open>obj.get(key, default)\<close>. Only a dictionary has the method; on any other decoded value
  the attribute lookup raises \<^verbatim>\<open>AttributeError\<close>.
\<close>

fun py_get :: "pyval \<Rightarrow> string \<Rightarrow> pyval \<Rightarrow> exn + pyval" where
  "py_get (PyDict kvs) key dflt =
     Inr (case map_of kvs key of Some v \<Rightarrow> v | None \<Rightarrow> dflt)"
| "py_get v key dflt =
     Inl (Exn AttributeError
       (squote @ type_name v @ squote @ '' object has no attribute '' @ squote @ ''get'' @ squote))"

text \<open>Truth value of a Python object, as \<^verbatim>\<open>or\<close> and \<^verbatim>\<open>if\<close> test it.\<close>

fun truthy :: "pyval \<Rightarrow> bool" where
  "truthy PyNone = False"
| "truthy (PyBool b) = b"
| "truthy (PyInt i) = (i \<noteq> 0)"
| "truthy (PyFloat f) = (f \<noteq> 0 \<and> f \<noteq> 0x8000000000000000)"
| "truthy (PyStr s) = (s \<noteq> [])"
| "truthy (PyList xs) = (xs \<noteq> [])"
| "truthy (PyDict kvs) = (kvs \<noteq> [])"

definition py_or :: "pyval \<Rightarrow> pyval \<Rightarrow> pyval" where
  "py_or a b = (if truthy a then a else b)"

text \<open>
  \<^verbatim>\<open>d[key] = v\<close> while a dictionary display is built: an existing key keeps its position and
  takes the new value, a new key goes to the end.
\<close>

fun dict_set :: "dict \<Rightarrow> string \<Rightarrow> pyval \<Rightarrow> dict" where
  "dict_set [] key v = [(key, v)]"
| "dict_set ((k, x) # kvs) key v =
     (if k = key then (k, v) # kvs else (k, x) # dict_set kvs key v)"

section \<open>Configuration (config.py)\<close>

record IntegratedConfig =
  anthropic_api_key :: string
  claude_model :: string
  max_tokens :: int
  temperature :: "64 word"
  templates_dir :: string

section \<open>The collaborators\<close>

text \<open>
  The remote model API replies with a sequence of content blocks; a text block carries
  text, any other block (tool use, thinking) has no \<^verbatim>\<open>text\<close> attribute.
\<close>

datatype content_block = TextBlock string | NonTextBlock string

record create_params =
  model :: string
  max_tokens :: int
  temperature :: "64 word"
  messages :: "(string \<times> string) list"

text \<open>\<^verbatim>\<open>Path(templates_dir) / f"{template_name}.poml"\<close>: the directory and the file name.\<close>

type_synonym path = "string \<times> string"

text \<open>
  Everything outside the repository is a parameter of the model: the process environment,
  the file system, the optional template engine, the remote client, the standard library's
  JSON decoder and the clock. Each may raise.
  \<^item> \<open>HAS_POML\<close>: whether the import of the template engine succeeded.
  \<^item> \<open>getenv\<close>: \<^verbatim>\<open>os.getenv\<close>; \<open>env_max_tokens\<close> and \<open>env_temperature\<close> are the values
    \<^verbatim>\<open>int(os.getenv("MAX_TOKENS", "100000"))\<close> and \<^verbatim>\<open>float(os.getenv("TEMPERATURE", "0.7"))\<close>.
  \<^item> \<open>path_exists\<close>: \<^verbatim>\<open>Path.exists\<close>; \<open>mkdir\<close>: \<^verbatim>\<open>Path.mkdir(parents=True, exist_ok=True)\<close>,
    \<open>Some e\<close> when it raises.
  \<^item> \<open>poml_render\<close>: \<^verbatim>\<open>PomlFile.from_file(path).render(ctx)\<close> for the context holding the
    given bindings.
  \<^item> \<open>messages_create\<close>: \<^verbatim>\<open>await claude.messages.create(...)\<close>, \<open>Inr\<close> the content blocks of
    the reply.
  \<^item> \<open>json_loads\<close>: \<^verbatim>\<open>json.loads\<close>.
  \<^item> \<open>elapsed\<close>: the float \<^verbatim>\<open>perf_counter() - t0\<close> read when the result is built.
\<close>

record env =
  HAS_POML :: bool
  getenv :: "string \<Rightarrow> string option"
  env_max_tokens :: int
  env_temperature :: "64 word"
  path_exists :: "path \<Rightarrow> exn + bool"
  mkdir :: "string \<Rightarrow> exn option"
  poml_render :: "path \<Rightarrow> dict \<Rightarrow> exn + string"
  messages_create :: "create_params \<Rightarrow> exn + content_block list"
  json_loads :: "string \<Rightarrow> exn + pyval"
  elapsed :: "64 word"

text \<open>
  The effects the code has on the outside: the requests sent to the remote model and the
  directories made, each in order.
\<close>

record world =
  requests :: "create_params list"
  mkdirs :: "string list"

definition getenv_default :: "env \<Rightarrow> string \<Rightarrow> string \<Rightarrow> string" where
  "getenv_default ev name dflt = (case getenv ev name of None \<Rightarrow> dflt | Some v \<Rightarrow> v)"

text \<open>\<^verbatim>\<open>IntegratedConfig()\<close>: every field takes its default, read from the environment.\<close>

definition default_config :: "env \<Rightarrow> IntegratedConfig" where
  "default_config ev =
     \<lparr> anthropic_api_key = getenv_default ev ''ANTHROPIC_API_KEY'' '''',
       claude_model = getenv_default ev ''CLAUDE_MODEL'' ''claude-4'',
       IntegratedConfig.max_tokens = env_max_tokens ev,
       IntegratedConfig.temperature = env_temperature ev,
       templates_dir = getenv_default ev ''TEMPLATES_DIR'' ''./templates'' \<rparr>"

text \<open>
  \<^verbatim>\<open>
  def validate(self) -> None:
      if not self.anthropic_api_key:
          raise ValueError("ANTHROPIC_API_KEY is required")
      Path(self.templates_dir).mkdir(parents=True, exist_ok=True)
  \<close>
\<close>

definition validate :: "env \<Rightarrow> IntegratedConfig \<Rightarrow> world \<Rightarrow> (exn + unit) \<times> world" where
  "validate ev cfg w =
     (if anthropic_api_key cfg = [] then
        (Inl (Exn ValueError ''ANTHROPIC_API_KEY is required''), w)
      else
        (case mkdir ev (templates_dir cfg) of
           Some e \<Rightarrow> (Inl e, w)
         | None \<Rightarrow> (Inr (), w\<lparr>mkdirs := mkdirs w @ [templates_dir cfg]\<rparr>)))"

section \<open>The generation pipeline (core_integration.py)\<close>

record IntegratedResponse =
  success :: bool
  response :: pyval
  error :: "string option"
  metadata :: "dict option"
  confidence_score :: pyval
  reasoning_chain :: pyval
  localized_elements :: pyval

record integration =
  config :: IntegratedConfig
  tools :: "string list"

text \<open>
  \<^verbatim>\<open>__init__\<close> (here \<open>init\<close>): take the given configuration or the default one, validate
  it, build the client and the tool registry.
  \<^verbatim>\<open>
  def __init__(self, config: Optional[IntegratedConfig] = None):
      self.config = config or IntegratedConfig()
      self.config.validate()
      self.claude = AsyncAnthropic(api_key=self.config.anthropic_api_key)
      self.tools = {"repository_search": ..., "code_generation": ..., "validation": ...}
  \<close>
\<close>

definition init :: "env \<Rightarrow> IntegratedConfig option \<Rightarrow> world \<Rightarrow> (exn + integration) \<times> world" where
  "init ev cfg_opt w =
     (let cfg = (case cfg_opt of None \<Rightarrow> default_config ev | Some c \<Rightarrow> c) in
      case validate ev cfg w of
        (Inl e, w') \<Rightarrow> (Inl e, w')
      | (Inr u, w') \<Rightarrow>
          (Inr \<lparr> config = cfg,
                 tools = [''repository_search'', ''code_generation'', ''validation''] \<rparr>, w'))"

subsection \<open>Template resolution\<close>

text \<open>
  \<^verbatim>\<open>_render\<close> (here \<open>render\<close>). A template name that is \<^verbatim>\<open>None\<close> or empty is false.
  \<^verbatim>\<open>
  def _render(self, prompt, template_name, variables) -> str:
      if template_name and HAS_POML:
          tpl = Path(self.config.templates_dir) / f"{template_name}.poml"
          if tpl.exists():
              pf = PomlFile.from_file(str(tpl))
              ctx = PomlContext()
              for k, v in (variables or {}).items():
                  ctx.set_variable(k, v)
              return pf.render(ctx)
      return prompt
  \<close>
  The context is the bindings made by \<^verbatim>\<open>ctx.set_variable(k, v)\<close>, one for every item in the
  mapping's order.
\<close>

definition set_variable :: "dict \<Rightarrow> string \<times> pyval \<Rightarrow> dict" where
  "set_variable ctx kv = ctx @ [kv]"

definition render :: "env \<Rightarrow> integration \<Rightarrow> string \<Rightarrow> string option \<Rightarrow> dict \<Rightarrow> exn + string" where
  "render ev self prompt template_name variables =
     (case template_name of
        None \<Rightarrow> Inr prompt
      | Some name \<Rightarrow>
          if name \<noteq> [] \<and> HAS_POML ev then
            (let tpl = (templates_dir (config self), name @ ''.poml'') in
             case path_exists ev tpl of
               Inl e \<Rightarrow> Inl e
             | Inr True \<Rightarrow> poml_render ev tpl (foldl set_variable [] variables)
             | Inr False \<Rightarrow> Inr prompt)
          else Inr prompt)"

subsection \<open>Response normalisation\<close>

text \<open>
  \<^verbatim>\<open>
  async def generate(self, *, prompt, template_name=None, variables=None):
      t0 = perf_counter()
      try:
          rendered = self._render(prompt, template_name, variables or {})
          rsp = await self.claude.messages.create(
              model=self.config.claude_model,
              max_tokens=self.config.max_tokens,
              temperature=self.config.temperature,
              messages=[{"role": "user", "content": rendered}],
          )
          text = "".join(getattr(b, "text", "") for b in rsp.content)
          try:
              obj = json.loads(text)
              return IntegratedResponse(
                  success=True,
                  response=obj.get("primary_response", text),
                  metadata={"processing_time": perf_counter() - t0,
                            "model_used": self.config.claude_model},
                  confidence_score=obj.get("confidence_score"),
                  reasoning_chain=obj.get("reasoning_chain", []),
                  localized_elements=obj.get("localized_elements", []),
              )
          except json.JSONDecodeError:
              return IntegratedResponse(
                  success=True,
                  response=text,
                  metadata={"processing_time": perf_counter() - t0,
                            "model_used": self.config.claude_model},
              )
      except Exception as e:
          return IntegratedResponse(success=False, error=str(e),
                                    metadata={"processing_time": perf_counter() - t0})
  \<close>
  The model follows the statement from the inside out: the text of the reply, the three
  records, the inner \<^verbatim>\<open>try\<close> (\<open>normalize\<close>), the body of the outer \<^verbatim>\<open>try\<close>
  (\<open>generate_try\<close>) and the outer handler (\<open>generate\<close>). A field the constructor is not
  given keeps its default \<^verbatim>\<open>None\<close>. \<open>generate\<close> is the call that runs to its end with no
  signal thrown into it, so that all it can meet are the failures of its collaborators;
  \<open>generate_awaiting\<close> below is the call with the signal, if any, that arrives while it is
  suspended at its \<^verbatim>\<open>await\<close>.
\<close>

text \<open>\<^verbatim>\<open>"".join(getattr(b, "text", "") for b in rsp.content)\<close>\<close>

fun block_text :: "content_block \<Rightarrow> string" where
  "block_text (TextBlock s) = s"
| "block_text (NonTextBlock t) = []"

definition joined_text :: "content_block list \<Rightarrow> string" where
  "joined_text content = concat (map block_text content)"

definition success_metadata :: "env \<Rightarrow> integration \<Rightarrow> dict" where
  "success_metadata ev self =
     [(''processing_time'', PyFloat (elapsed ev)),
      (''model_used'', PyStr (claude_model (config self)))]"

text \<open>The result built from a decoded reply; each \<^verbatim>\<open>obj.get\<close> may raise.\<close>

definition structured_result :: "env \<Rightarrow> integration \<Rightarrow> string \<Rightarrow> pyval \<Rightarrow> exn + IntegratedResponse" where
  "structured_result ev self text obj =
     and_then (py_get obj ''primary_response'' (PyStr text)) (\<lambda>r.
     and_then (py_get obj ''confidence_score'' PyNone) (\<lambda>c.
     and_then (py_get obj ''reasoning_chain'' (PyList [])) (\<lambda>rc.
     and_then (py_get obj ''localized_elements'' (PyList [])) (\<lambda>le.
       Inr \<lparr> success = True, response = r, error = None,
             metadata = Some (success_metadata ev self),
             confidence_score = c, reasoning_chain = rc, localized_elements = le \<rparr>))))"

definition plain_result :: "env \<Rightarrow> integration \<Rightarrow> string \<Rightarrow> IntegratedResponse" where
  "plain_result ev self text =
     \<lparr> success = True, response = PyStr text, error = None,
       metadata = Some (success_metadata ev self),
       confidence_score = PyNone, reasoning_chain = PyNone, localized_elements = PyNone \<rparr>"

definition failure_result :: "env \<Rightarrow> exn \<Rightarrow> IntegratedResponse" where
  "failure_result ev e =
     \<lparr> success = False, response = PyNone, error = Some (exn_str e),
       metadata = Some [(''processing_time'', PyFloat (elapsed ev))],
       confidence_score = PyNone, reasoning_chain = PyNone, localized_elements = PyNone \<rparr>"

text \<open>The inner \<^verbatim>\<open>try\<close> of \<^verbatim>\<open>generate\<close>: decode, build, and fall back on a decoding error only.\<close>

definition normalize :: "env \<Rightarrow> integration \<Rightarrow> string \<Rightarrow> exn + IntegratedResponse" where
  "normalize ev self text =
     try_except
       (and_then (json_loads ev text) (structured_result ev self text))
       isinstance_JSONDecodeError
       (\<lambda>e. Inr (plain_result ev self text))"

subsection \<open>generate\<close>

definition create_request :: "integration \<Rightarrow> string \<Rightarrow> create_params" where
  "create_request self rendered =
     \<lparr> model = claude_model (config self),
       max_tokens = IntegratedConfig.max_tokens (config self),
       temperature = IntegratedConfig.temperature (config self),
       messages = [(''user'', rendered)] \<rparr>"

text \<open>The body of the outer \<^verbatim>\<open>try\<close>: render, send one request, normalise the reply.\<close>

definition generate_try ::
  "env \<Rightarrow> integration \<Rightarrow> string \<Rightarrow> string option \<Rightarrow> dict option \<Rightarrow> world
     \<Rightarrow> (exn + IntegratedResponse) \<times> world" where
  "generate_try ev self prompt template_name variables w =
     (case render ev self prompt template_name (case variables of None \<Rightarrow> [] | Some d \<Rightarrow> d) of
        Inl e \<Rightarrow> (Inl e, w)
      | Inr rendered \<Rightarrow>
          (and_then (messages_create ev (create_request self rendered))
             (\<lambda>content. normalize ev self (joined_text content)),
           w\<lparr>requests := requests w @ [create_request self rendered]\<rparr>))"

definition generate ::
  "env \<Rightarrow> integration \<Rightarrow> string \<Rightarrow> string option \<Rightarrow> dict option \<Rightarrow> world
     \<Rightarrow> (exn + IntegratedResponse) \<times> world" where
  "generate ev self prompt template_name variables w =
     (case generate_try ev self prompt template_name variables w of
        (r, w') \<Rightarrow>
          (try_except r (\<lambda>e. isinstance_Exception (Failure e))
             (\<lambda>e. Inr (failure_result ev e)), w'))"

subsection \<open>generate, cancelled or interrupted\<close>

text \<open>
  The coroutine has one suspension point, the \<^verbatim>\<open>await\<close> of the remote call. \<open>thrown\<close> is the
  signal thrown into it there, if any: then the \<^verbatim>\<open>await\<close> raises the signal instead of giving
  the outcome of the call. What has been raised inside the \<^verbatim>\<open>try\<close> meets the clause
  \<^verbatim>\<open>except Exception as e\<close>, which binds a failure and lets a signal pass.
\<close>

definition propagate :: "exn + 'a \<Rightarrow> raised + 'a" where
  "propagate outcome = (case outcome of Inl e \<Rightarrow> Inl (Failure e) | Inr v \<Rightarrow> Inr v)"

definition awaited :: "signal option \<Rightarrow> exn + 'a \<Rightarrow> raised + 'a" where
  "awaited thrown outcome =
     (case thrown of Some s \<Rightarrow> Inl (Signal s) | None \<Rightarrow> propagate outcome)"

definition generate_try_awaiting ::
  "env \<Rightarrow> integration \<Rightarrow> string \<Rightarrow> string option \<Rightarrow> dict option \<Rightarrow> signal option \<Rightarrow> world
     \<Rightarrow> (raised + IntegratedResponse) \<times> world" where
  "generate_try_awaiting ev self prompt template_name variables thrown w =
     (case render ev self prompt template_name (case variables of None \<Rightarrow> [] | Some d \<Rightarrow> d) of
        Inl e \<Rightarrow> (Inl (Failure e), w)
      | Inr rendered \<Rightarrow>
          (and_then (awaited thrown (messages_create ev (create_request self rendered)))
             (\<lambda>content. propagate (normalize ev self (joined_text content))),
           w\<lparr>requests := requests w @ [create_request self rendered]\<rparr>))"

definition generate_awaiting ::
  "env \<Rightarrow> integration \<Rightarrow> string \<Rightarrow> string option \<Rightarrow> dict option \<Rightarrow> signal option \<Rightarrow> world
     \<Rightarrow> (raised + IntegratedResponse) \<times> world" where
  "generate_awaiting ev self prompt template_name variables thrown w =
     (case generate_try_awaiting ev self prompt template_name variables thrown w of
        (r, w') \<Rightarrow>
          (try_except r isinstance_Exception
             (\<lambda>x. case x of
                    Failure e \<Rightarrow> Inr (failure_result ev e)
                  | Signal s \<Rightarrow> Inl (Signal s)), w'))"

section \<open>The compatibility entry point (core_integration.py)\<close>

record OrchestrationRequest =
  prompt :: string
  req_context :: "dict option"
  tools :: "string list option"
  max_tokens :: "int option"
  temperature :: "64 word option"
  template_name :: "string option"
  variables :: "dict option"

record OrchestrationResponse =
  content :: pyval
  usage :: "(string \<times> int) list"
  model :: string
  tools_used :: "string list"
  metadata :: dict
  confidence_score :: pyval
  reasoning_chain :: pyval

text \<open>
  \<^verbatim>\<open>
  async def orchestrate(self, request: OrchestrationRequest) -> OrchestrationResponse:
      result = await self.generate(
          prompt=request.prompt,
          template_name=request.template_name,
          variables={**(request.variables or {}),
                     "context": request.context, "tools": request.tools})
      if result.success:
          usage = {"input_tokens": 0, "output_tokens": 0}
          return OrchestrationResponse(
              content=result.response or "",
              usage=usage,
              model=self.config.claude_model,
              tools_used=request.tools or [],
              metadata=result.metadata or {},
              confidence_score=result.confidence_score,
              reasoning_chain=result.reasoning_chain)
      else:
          raise Exception(result.error or "Orchestration failed")
  \<close>
  The request's field \<^verbatim>\<open>context\<close> is \<open>req_context\<close> here. The variables passed on are the
  request's own, then the reserved keys \<^verbatim>\<open>context\<close> and \<^verbatim>\<open>tools\<close>.
\<close>

definition merged_variables :: "OrchestrationRequest \<Rightarrow> dict" where
  "merged_variables request =
     dict_set
       (dict_set (case variables request of None \<Rightarrow> [] | Some d \<Rightarrow> d)
          ''context'' (case req_context request of None \<Rightarrow> PyNone | Some c \<Rightarrow> PyDict c))
       ''tools''
       (case OrchestrationRequest.tools request of
          None \<Rightarrow> PyNone
        | Some ts \<Rightarrow> PyList (map PyStr ts))"

text \<open>\<^verbatim>\<open>result.error or "Orchestration failed"\<close>\<close>

definition failure_message :: "string option \<Rightarrow> string" where
  "failure_message err =
     (case err of
        None \<Rightarrow> ''Orchestration failed''
      | Some s \<Rightarrow> if s = [] then ''Orchestration failed'' else s)"

definition orchestrate ::
  "env \<Rightarrow> integration \<Rightarrow> OrchestrationRequest \<Rightarrow> world
     \<Rightarrow> (exn + OrchestrationResponse) \<times> world" where
  "orchestrate ev self request w =
     (case generate ev self (prompt request) (template_name request)
             (Some (merged_variables request)) w of
        (Inl e, w') \<Rightarrow> (Inl e, w')
      | (Inr result, w') \<Rightarrow>
          if success result then
            (Inr \<lparr> content = py_or (response result) (PyStr []),
                   usage = [(''input_tokens'', 0), (''output_tokens'', 0)],
                   model = claude_model (config self),
                   tools_used =
                     (case OrchestrationRequest.tools request of None \<Rightarrow> [] | Some ts \<Rightarrow> ts),
                   metadata =
                     (case IntegratedResponse.metadata result of None \<Rightarrow> [] | Some m \<Rightarrow> m),
                   confidence_score = IntegratedResponse.confidence_score result,
                   reasoning_chain = IntegratedResponse.reasoning_chain result \<rparr>, w')
          else (Inl (Exn PlainException (failure_message (error result))), w'))"

section \<open>The HTTP facade (service.py)\<close>

record GeneratePayload =
  prompt :: string
  template_name :: "string option"
  variables :: "dict option"

text \<open>
  The handler of \<^verbatim>\<open>POST /orchestrate\<close>. The module holds the configuration \<open>cfg\<close> and the
  integration \<open>ai\<close> built from it at import; the handler returns a dictionary.
  \<^verbatim>\<open>
  @app.post("/orchestrate")
  async def orchestrate(p: GeneratePayload):
      res = await ai.generate(prompt=p.prompt, template_name=p.template_name,
                              variables=p.variables)
      return {
          "content": res.response,
          "usage": {"input_tokens": 0, "output_tokens": 0},
          "model": cfg.claude_model,
          "tools_used": [],
          "metadata": res.metadata or {},
          "confidence_score": res.confidence_score,
          "reasoning_chain": res.reasoning_chain,
      }
  \<close>
\<close>

definition service_orchestrate ::
  "env \<Rightarrow> IntegratedConfig \<Rightarrow> integration \<Rightarrow> GeneratePayload \<Rightarrow> world
     \<Rightarrow> (exn + dict) \<times> world" where
  "service_orchestrate ev cfg ai p w =
     (case generate ev ai (prompt p) (template_name p) (variables p) w of
        (Inl e, w') \<Rightarrow> (Inl e, w')
      | (Inr res, w') \<Rightarrow>
          (Inr [(''content'', response res),
                (''usage'', PyDict [(''input_tokens'', PyInt 0), (''output_tokens'', PyInt 0)]),
                (''model'', PyStr (claude_model cfg)),
                (''tools_used'', PyList []),
                (''metadata'',
                   PyDict (case IntegratedResponse.metadata res of None \<Rightarrow> [] | Some m \<Rightarrow> m)),
                (''confidence_score'', IntegratedResponse.confidence_score res),
                (''reasoning_chain'', IntegratedResponse.reasoning_chain res)], w'))"

section \<open>A sample environment\<close>

text \<open>
  A concrete environment on which the definitions can be run. The template engine is not
  installed and no environment variable is set. The remote model answers four prompts and
  rejects every other one; the decoder's table holds what \<^verbatim>\<open>json.loads\<close> returns on the
  three replies that are JSON documents and raises \<^verbatim>\<open>JSONDecodeError\<close> elsewhere, as it
  does on \<^verbatim>\<open>Hello!\<close>. The float \<^verbatim>\<open>0.9\<close> is \<^verbatim>\<open>0x3FECCCCCCCCCCCCD\<close>, \<^verbatim>\<open>0.7\<close> is
  \<^verbatim>\<open>0x3FE6666666666666\<close> and \<^verbatim>\<open>0.25\<close> is \<^verbatim>\<open>0x3FD0000000000000\<close>.
\<close>

definition reply_json :: string where
  \<open>reply_json = ''{"primary_response":"ok","confidence_score":0.9}''\<close>

definition reply_null :: string where
  \<open>reply_null = ''{"primary_response": null}''\<close>

definition sample_create :: "create_params \<Rightarrow> exn + content_block list" where
  "sample_create p =
     (if messages p = [(''user'', ''Say hello'')] then
        Inr [TextBlock ''Hello!'']
      else if messages p = [(''user'', ''Return JSON'')] then
        Inr [NonTextBlock ''thinking'', TextBlock (take 20 reply_json),
             TextBlock (drop 20 reply_json)]
      else if messages p = [(''user'', ''What is 6 times 7? Digits only.'')] then
        Inr [TextBlock ''42'']
      else if messages p = [(''user'', ''Return a null answer'')] then
        Inr [TextBlock reply_null]
      else Inl (Exn (OtherException ''AuthenticationError'') ''invalid x-api-key''))"

definition sample_loads :: "string \<Rightarrow> exn + pyval" where
  "sample_loads s =
     (if s = reply_json then
        Inr (PyDict [(''primary_response'', PyStr ''ok''),
                     (''confidence_score'', PyFloat 0x3FECCCCCCCCCCCCD)])
      else if s = reply_null then
        Inr (PyDict [(''primary_response'', PyNone)])
      else if s = ''42'' then
        Inr (PyInt 42)
      else Inl (Exn JSONDecodeError ''Expecting value: line 1 column 1 (char 0)''))"

definition sample_env :: env where
  "sample_env =
     \<lparr> HAS_POML = False,
       getenv = (\<lambda>name. None),
       env_max_tokens = 100000,
       env_temperature = 0x3FE6666666666666,
       path_exists = (\<lambda>p. Inr False),
       mkdir = (\<lambda>d. None),
       poml_render = (\<lambda>p ctx. Inl (Exn (OtherException ''TypeError'')
                                    (squote @ ''NoneType'' @ squote @ '' object is not callable''))),
       messages_create = sample_create,
       json_loads = sample_loads,
       elapsed = 0x3FD0000000000000 \<rparr>"

definition sample_config :: IntegratedConfig where
  "sample_config = (default_config sample_env)\<lparr>anthropic_api_key := ''sk-test''\<rparr>"

definition sample_ai :: integration where
  "sample_ai =
     \<lparr> config = sample_config,
       integration.tools = [''repository_search'', ''code_generation'', ''validation''] \<rparr>"

definition world0 :: world where
  "world0 = \<lparr> requests = [], mkdirs = [] \<rparr>"

text \<open>
  The same environment with a transport that times out: \<^verbatim>\<open>TimeoutError()\<close>, raised with no
  argument as \<^verbatim>\<open>asyncio.wait_for\<close> does, has the empty string as its text.
\<close>

definition timeout_env :: env where
  "timeout_env =
     sample_env\<lparr>messages_create := (\<lambda>p. Inl (Exn (OtherException ''TimeoutError'') []))\<rparr>"

text \<open>The same environment with the template engine installed and no template file.\<close>

definition poml_env :: env where
  "poml_env = sample_env\<lparr>HAS_POML := True\<rparr>"

text \<open>
  The same environment with the template engine installed, no template file, and a file
  system that refuses a file name of more than 255 bytes, as Linux does: \<^verbatim>\<open>Path.exists\<close>
  then raises \<^verbatim>\<open>OSError\<close> (errno 36) where it would return \<^verbatim>\<open>False\<close> for a shorter name.
\<close>

definition longname_env :: env where
  "longname_env =
     sample_env\<lparr>HAS_POML := True,
                path_exists := (\<lambda>(d, n).
                  if 255 < length n then
                    Inl (Exn (OtherException ''OSError'')
                          (''[Errno 36] File name too long: '' @ squote @ ''templates/'' @ n @ squote))
                  else Inr False)\<rparr>"

definition long_name :: string where
  "long_name = replicate 300 (CHR ''a'')"

text \<open>A legacy request that asks for its own token budget and temperature (\<^verbatim>\<open>1.0\<close>).\<close>

definition sample_request :: OrchestrationRequest where
  "sample_request =
     \<lparr> OrchestrationRequest.prompt = ''Return JSON'',
       req_context = Some [(''page'', PyStr ''report'')],
       OrchestrationRequest.tools = Some [''validation''],
       OrchestrationRequest.max_tokens = Some 16,
       OrchestrationRequest.temperature = Some 0x3FF0000000000000,
       OrchestrationRequest.template_name = None,
       OrchestrationRequest.variables = Some [(''tools'', PyNone), (''tone'', PyStr ''brief'')] \<rparr>"

section \<open>How generate runs\<close>

text \<open>
  The three ways through \<^verbatim>\<open>generate\<close>: rendering raises, the remote call raises, or there
  is a reply to normalise; and the four ways through the inner \<^verbatim>\<open>try\<close>.
\<close>

lemma generate_render_raises:
  assumes "render ev self ptext tn (case vars of None \<Rightarrow> [] | Some d \<Rightarrow> d) = Inl e"
  shows "generate ev self ptext tn vars w = (Inr (failure_result ev e), w)"
  using assms by (simp add: generate_def generate_try_def try_except_def isinstance_Exception_def)

lemma generate_create_raises:
  assumes "render ev self ptext tn (case vars of None \<Rightarrow> [] | Some d \<Rightarrow> d) = Inr rendered"
      and "messages_create ev (create_request self rendered) = Inl e"
  shows "generate ev self ptext tn vars w =
           (Inr (failure_result ev e), w\<lparr>requests := requests w @ [create_request self rendered]\<rparr>)"
  using assms
  by (simp add: generate_def generate_try_def try_except_def and_then_def isinstance_Exception_def)

lemma generate_reply:
  assumes "render ev self ptext tn (case vars of None \<Rightarrow> [] | Some d \<Rightarrow> d) = Inr rendered"
      and "messages_create ev (create_request self rendered) = Inr blocks"
  shows "generate ev self ptext tn vars w =
           (case normalize ev self (joined_text blocks) of
              Inl e \<Rightarrow> Inr (failure_result ev e)
            | Inr r \<Rightarrow> Inr r,
            w\<lparr>requests := requests w @ [create_request self rendered]\<rparr>)"
  using assms
  by (simp add: generate_def generate_try_def try_except_def and_then_def isinstance_Exception_def
           split: sum.splits)

lemma normalize_object:
  assumes "json_loads ev text = Inr (PyDict obj)"
  shows "normalize ev self text =
     Inr \<lparr> success = True,
           response = (case map_of obj ''primary_response'' of Some v \<Rightarrow> v | None \<Rightarrow> PyStr text),
           error = None,
           metadata = Some (success_metadata ev self),
           confidence_score = (case map_of obj ''confidence_score'' of Some v \<Rightarrow> v | None \<Rightarrow> PyNone),
           reasoning_chain = (case map_of obj ''reasoning_chain'' of Some v \<Rightarrow> v | None \<Rightarrow> PyList []),
           localized_elements =
             (case map_of obj ''localized_elements'' of Some v \<Rightarrow> v | None \<Rightarrow> PyList []) \<rparr>"
  using assms by (simp add: normalize_def structured_result_def and_then_def try_except_def)

lemma py_get_non_dict:
  assumes "\<And>kvs. v \<noteq> PyDict kvs"
  shows "py_get v key dflt =
     Inl (Exn AttributeError
       (squote @ type_name v @ squote @ '' object has no attribute '' @ squote @ ''get'' @ squote))"
  using assms by (cases v) auto

lemma normalize_non_object:
  assumes "json_loads ev text = Inr v" and "\<And>kvs. v \<noteq> PyDict kvs"
  shows "normalize ev self text =
     Inl (Exn AttributeError
       (squote @ type_name v @ squote @ '' object has no attribute '' @ squote @ ''get'' @ squote))"
  using assms(1) py_get_non_dict[OF assms(2)]
  by (simp add: normalize_def structured_result_def and_then_def try_except_def
        isinstance_JSONDecodeError_def)

lemma normalize_decode_error:
  assumes "json_loads ev text = Inl e" and "exn_cls e = JSONDecodeError"
  shows "normalize ev self text = Inr (plain_result ev self text)"
  using assms
  by (simp add: normalize_def and_then_def try_except_def isinstance_JSONDecodeError_def)

lemma normalize_other_error:
  assumes "json_loads ev text = Inl e" and "exn_cls e \<noteq> JSONDecodeError"
  shows "normalize ev self text = Inl e"
  using assms
  by (simp add: normalize_def and_then_def try_except_def isinstance_JSONDecodeError_def)

text \<open>
  \<^verbatim>\<open>generate\<close> always hands back a record, sends at most one request, and a record with
  \<open>success = False\<close> comes from the outer handler.
\<close>

lemma generate_returns:
  "\<exists>r. fst (generate ev self ptext tn vars w) = Inr r"
  by (simp add: generate_def generate_try_def try_except_def isinstance_Exception_def
        split: sum.splits prod.splits)

lemma generate_requests:
  "requests (snd (generate ev self ptext tn vars w)) =
     requests w @
       (case render ev self ptext tn (case vars of None \<Rightarrow> [] | Some d \<Rightarrow> d) of
          Inl e \<Rightarrow> []
        | Inr rendered \<Rightarrow> [create_request self rendered])"
  by (simp add: generate_def generate_try_def split: sum.splits prod.splits)

lemma structured_result_returns:
  assumes "structured_result ev self text v = Inr r"
  shows "\<exists>obj. v = PyDict obj \<and> success r \<and> error r = None \<and>
           response r = (case map_of obj ''primary_response'' of Some x \<Rightarrow> x | None \<Rightarrow> PyStr text)"
  using assms
  by (cases v) (auto simp: structured_result_def and_then_def)

lemma normalize_returns:
  assumes "normalize ev self text = Inr r"
  shows "success r \<and> error r = None \<and>
         (response r = PyStr text \<or>
          (\<exists>obj. json_loads ev text = Inr (PyDict obj) \<and>
             response r = (case map_of obj ''primary_response'' of Some x \<Rightarrow> x | None \<Rightarrow> PyStr text)))"
proof (cases "json_loads ev text")
  case (Inl e)
  with assms show ?thesis
    by (auto simp: normalize_def and_then_def try_except_def plain_result_def split: if_splits)
next
  case (Inr v)
  show ?thesis
  proof (cases "structured_result ev self text v")
    case (Inl e)
    with Inr assms show ?thesis
      by (auto simp: normalize_def and_then_def try_except_def plain_result_def split: if_splits)
  next
    case inr: (Inr r')
    with Inr assms have "r' = r"
      by (simp add: normalize_def and_then_def try_except_def)
    with structured_result_returns[OF inr] Inr show ?thesis by auto
  qed
qed

lemma generate_result_cases:
  assumes "fst (generate ev self ptext tn vars w) = Inr r"
  shows "(\<exists>e. r = failure_result ev e) \<or>
         (\<exists>rendered blocks.
            render ev self ptext tn (case vars of None \<Rightarrow> [] | Some d \<Rightarrow> d) = Inr rendered \<and>
            messages_create ev (create_request self rendered) = Inr blocks \<and>
            normalize ev self (joined_text blocks) = Inr r)"
proof (cases "render ev self ptext tn (case vars of None \<Rightarrow> [] | Some d \<Rightarrow> d)")
  case (Inl e)
  with assms show ?thesis by (auto simp: generate_render_raises)
next
  case (Inr rendered)
  show ?thesis
  proof (cases "messages_create ev (create_request self rendered)")
    case (Inl e)
    with Inr assms show ?thesis by (auto simp: generate_create_raises)
  next
    case inr: (Inr blocks)
    with Inr assms show ?thesis
      by (auto simp: generate_reply split: sum.splits)
  qed
qed

lemma generate_failed_shape:
  assumes "fst (generate ev self ptext tn vars w) = Inr r" and "\<not> success r"
  shows "\<exists>e. r = failure_result ev e"
  using generate_result_cases[OF assms(1)] assms(2) normalize_returns by blast

lemma generate_undecodable_reply:
  assumes "render ev self ptext tn (case vars of None \<Rightarrow> [] | Some d \<Rightarrow> d) = Inr rendered"
      and "messages_create ev (create_request self rendered) = Inr blocks"
      and "json_loads ev (joined_text blocks) = Inl e"
      and "exn_cls e = JSONDecodeError"
  shows "fst (generate ev self ptext tn vars w) = Inr (plain_result ev self (joined_text blocks))"
  by (simp add: generate_reply[OF assms(1,2)] normalize_decode_error[OF assms(3,4)])

lemma generate_non_object_reply:
  assumes "render ev self ptext tn (case vars of None \<Rightarrow> [] | Some d \<Rightarrow> d) = Inr rendered"
      and "messages_create ev (create_request self rendered) = Inr blocks"
      and "json_loads ev (joined_text blocks) = Inr v"
      and "\<And>kvs. v \<noteq> PyDict kvs"
  shows "fst (generate ev self ptext tn vars w) =
           Inr (failure_result ev (Exn AttributeError
             (squote @ type_name v @ squote @ '' object has no attribute '' @ squote @ ''get''
                @ squote)))"
  by (simp add: generate_reply[OF assms(1,2)] normalize_non_object[OF assms(3,4)])

text \<open>
  When the existence check of the template file raises, so does \<^verbatim>\<open>_render\<close>; and with no
  signal thrown, the awaited call is \<open>generate\<close>.
\<close>

lemma render_exists_raises:
  assumes "name \<noteq> []" and "HAS_POML ev"
      and "path_exists ev (templates_dir (config self), name @ ''.poml'') = Inl e"
  shows "render ev self ptext (Some name) vars = Inl e"
  using assms by (simp add: render_def)

lemma generate_awaiting_unthrown:
  "generate_awaiting ev self ptext tn vars None w =
     (case generate ev self ptext tn vars w of
        (r, w') \<Rightarrow> (propagate r, w'))"
  by (simp add: generate_awaiting_def generate_try_awaiting_def generate_def generate_try_def
        try_except_def and_then_def awaited_def propagate_def isinstance_Exception_def
        split: sum.splits prod.splits)

subsection \<open>Facts about the sample environment\<close>

lemma sample_render: "render sample_env self ptext tn vars = Inr ptext"
  by (simp add: render_def sample_env_def split: option.splits)

lemma sample_json_blocks:
  "joined_text [NonTextBlock ''thinking'', TextBlock (take 20 reply_json),
                TextBlock (drop 20 reply_json)] = reply_json"
  by (simp add: joined_text_def)

lemma sample_settings:
  "claude_model (config sample_ai) = ''claude-4''"
  "IntegratedConfig.max_tokens (config sample_ai) = 100000"
  "IntegratedConfig.temperature (config sample_ai) = 0x3FE6666666666666"
  "elapsed sample_env = 0x3FD0000000000000"
  by (simp_all add: sample_ai_def sample_config_def default_config_def getenv_default_def
        sample_env_def)

lemma sample_create_other:
  "messages_create sample_env (create_request sample_ai ''Summarise the report'') =
     Inl (Exn (OtherException ''AuthenticationError'') ''invalid x-api-key'')"
  by (simp add: sample_env_def sample_create_def create_request_def)

lemma sample_hello:
  "fst (generate sample_env sample_ai ''Say hello'' None None world0) =
     Inr (plain_result sample_env sample_ai ''Hello!'')"
proof -
  have r: "render sample_env sample_ai ''Say hello'' None (case None of None \<Rightarrow> [] | Some d \<Rightarrow> d)
             = Inr ''Say hello''"
    by (rule sample_render)
  have c: "messages_create sample_env (create_request sample_ai ''Say hello'') =
             Inr [TextBlock ''Hello!'']"
    by (simp add: sample_env_def sample_create_def create_request_def)
  have j: "json_loads sample_env (joined_text [TextBlock ''Hello!'']) =
             Inl (Exn JSONDecodeError ''Expecting value: line 1 column 1 (char 0)'')"
    by (simp add: joined_text_def sample_env_def sample_loads_def reply_json_def reply_null_def)
  show ?thesis
    using generate_undecodable_reply[OF r c j, of world0] by (simp add: joined_text_def)
qed

lemma sample_rejected:
  "fst (generate sample_env sample_ai ''Summarise the report'' None None world0) =
     Inr (failure_result sample_env (Exn (OtherException ''AuthenticationError'') ''invalid x-api-key''))"
proof -
  have r: "render sample_env sample_ai ''Summarise the report'' None
             (case None of None \<Rightarrow> [] | Some d \<Rightarrow> d) = Inr ''Summarise the report''"
    by (rule sample_render)
  show ?thesis
    by (simp add: generate_create_raises[OF r sample_create_other])
qed

section \<open>Structured replies\<close>

text \<open>
  Claim C1. Whenever the remote model replies and the concatenated text of the reply's
  blocks decodes to a JSON object, \<^verbatim>\<open>generate\<close> returns a result with \<open>success = True\<close>
  whose text is the object's \<^verbatim>\<open>primary_response\<close> when the object has that key and the
  concatenated text otherwise; the confidence score, the reasoning steps and the localized
  elements are the object's fields of those names, and default to \<^verbatim>\<open>None\<close>, the empty list
  and the empty list.
\<close>

theorem generate_structured_reply:
  assumes "render ev self ptext tn (case vars of None \<Rightarrow> [] | Some d \<Rightarrow> d) = Inr rendered"
      and "messages_create ev (create_request self rendered) = Inr blocks"
      and "json_loads ev (joined_text blocks) = Inr (PyDict obj)"
  shows "fst (generate ev self ptext tn vars w) =
     Inr \<lparr> success = True,
           response =
             (case map_of obj ''primary_response'' of
                Some v \<Rightarrow> v | None \<Rightarrow> PyStr (joined_text blocks)),
           error = None,
           metadata = Some [(''processing_time'', PyFloat (elapsed ev)),
                            (''model_used'', PyStr (claude_model (config self)))],
           confidence_score =
             (case map_of obj ''confidence_score'' of Some v \<Rightarrow> v | None \<Rightarrow> PyNone),
           reasoning_chain =
             (case map_of obj ''reasoning_chain'' of Some v \<Rightarrow> v | None \<Rightarrow> PyList []),
           localized_elements =
             (case map_of obj ''localized_elements'' of Some v \<Rightarrow> v | None \<Rightarrow> PyList []) \<rparr>"
  by (simp add: generate_reply[OF assms(1,2)] normalize_object[OF assms(3)] success_metadata_def)

text \<open>
  The scenario of the specification: the reply to \<^verbatim>\<open>Return JSON\<close> arrives in two text
  blocks after a block without text.
\<close>

theorem generate_structured_reply_witness:
  "fst (generate sample_env sample_ai ''Return JSON'' None None world0) =
     Inr \<lparr> success = True, response = PyStr ''ok'', error = None,
           metadata = Some [(''processing_time'', PyFloat 0x3FD0000000000000),
                            (''model_used'', PyStr ''claude-4'')],
           confidence_score = PyFloat 0x3FECCCCCCCCCCCCD,
           reasoning_chain = PyList [], localized_elements = PyList [] \<rparr>"
proof -
  have r: "render sample_env sample_ai ''Return JSON'' None (case None of None \<Rightarrow> [] | Some d \<Rightarrow> d)
             = Inr ''Return JSON''"
    by (rule sample_render)
  have c: "messages_create sample_env (create_request sample_ai ''Return JSON'') =
             Inr [NonTextBlock ''thinking'', TextBlock (take 20 reply_json),
                  TextBlock (drop 20 reply_json)]"
    by (simp add: sample_env_def sample_create_def create_request_def)
  have j: "json_loads sample_env (joined_text [NonTextBlock ''thinking'',
             TextBlock (take 20 reply_json), TextBlock (drop 20 reply_json)]) =
             Inr (PyDict [(''primary_response'', PyStr ''ok''),
                          (''confidence_score'', PyFloat 0x3FECCCCCCCCCCCCD)])"
    by (simp add: sample_json_blocks) (simp add: sample_env_def sample_loads_def)
  show ?thesis
    using generate_structured_reply[OF r c j, of world0] by (simp add: sample_settings)
qed

section \<open>Replies that are not JSON objects\<close>

text \<open>
  Claim C2 says that every reply whose text does not parse as a JSON object comes back as
  plain text with \<open>success = True\<close>. The code does so when \<^verbatim>\<open>json.loads\<close> raises
  \<^verbatim>\<open>JSONDecodeError\<close> (lemma \<open>generate_undecodable_reply\<close>). A reply that is a JSON document
  but not an object decodes without error, \<^verbatim>\<open>obj.get\<close> then raises \<^verbatim>\<open>AttributeError\<close>, and the
  outer handler reports an invocation failure (lemma \<open>generate_non_object_reply\<close>). Run on
  the reply \<^verbatim>\<open>42\<close>: the result has \<open>success = False\<close>, no text, and the error
  \<^verbatim>\<open>'int' object has no attribute 'get'\<close>.
\<close>

theorem generate_scalar_reply_fails:
  "messages_create sample_env (create_request sample_ai ''What is 6 times 7? Digits only.'') =
     Inr [TextBlock ''42''] \<and>
   json_loads sample_env (joined_text [TextBlock ''42'']) = Inr (PyInt 42) \<and>
   fst (generate sample_env sample_ai ''What is 6 times 7? Digits only.'' None None world0) =
     Inr \<lparr> success = False, response = PyNone,
           error = Some (squote @ ''int'' @ squote @ '' object has no attribute '' @ squote @
                         ''get'' @ squote),
           metadata = Some [(''processing_time'', PyFloat 0x3FD0000000000000)],
           confidence_score = PyNone, reasoning_chain = PyNone, localized_elements = PyNone \<rparr>"
proof -
  have r: "render sample_env sample_ai ''What is 6 times 7? Digits only.'' None
             (case None of None \<Rightarrow> [] | Some d \<Rightarrow> d) = Inr ''What is 6 times 7? Digits only.''"
    by (rule sample_render)
  have c: "messages_create sample_env
             (create_request sample_ai ''What is 6 times 7? Digits only.'') = Inr [TextBlock ''42'']"
    by (simp add: sample_env_def sample_create_def create_request_def)
  have j: "json_loads sample_env (joined_text [TextBlock ''42'']) = Inr (PyInt 42)"
    by (simp add: joined_text_def sample_env_def sample_loads_def reply_json_def reply_null_def)
  have "fst (generate sample_env sample_ai ''What is 6 times 7? Digits only.'' None None world0) =
          Inr (failure_result sample_env (Exn AttributeError
            (squote @ type_name (PyInt 42) @ squote @ '' object has no attribute '' @ squote @
               ''get'' @ squote)))"
    by (rule generate_non_object_reply[OF r c j]) simp
  then show ?thesis
    using c j by (simp add: failure_result_def sample_settings)
qed

section \<open>Invocation failures\<close>

text \<open>
  Claim C3, as the code has it. Whenever the prompt was rendered and the remote call raises
  an exception \<open>e\<close>, \<^verbatim>\<open>generate\<close> returns a result with \<open>success = False\<close>, no text, the
  error \<^verbatim>\<open>str(e)\<close>, and metadata holding the elapsed time and nothing else (no model
  identifier). The error is as long as the exception's own text: non-empty exactly when
  that is.
\<close>

theorem generate_invocation_failure:
  assumes "render ev self ptext tn (case vars of None \<Rightarrow> [] | Some d \<Rightarrow> d) = Inr rendered"
      and "messages_create ev (create_request self rendered) = Inl e"
  shows "fst (generate ev self ptext tn vars w) =
     Inr \<lparr> success = False, response = PyNone, error = Some (exn_str e),
           metadata = Some [(''processing_time'', PyFloat (elapsed ev))],
           confidence_score = PyNone, reasoning_chain = PyNone, localized_elements = PyNone \<rparr>"
  by (simp add: generate_create_raises[OF assms] failure_result_def)

text \<open>A request the remote service rejects for its credential.\<close>

theorem generate_invocation_failure_witness:
  "fst (generate sample_env sample_ai ''Summarise the report'' None None world0) =
     Inr \<lparr> success = False, response = PyNone, error = Some ''invalid x-api-key'',
           metadata = Some [(''processing_time'', PyFloat 0x3FD0000000000000)],
           confidence_score = PyNone, reasoning_chain = PyNone, localized_elements = PyNone \<rparr>"
proof -
  have r: "render sample_env sample_ai ''Summarise the report'' None
             (case None of None \<Rightarrow> [] | Some d \<Rightarrow> d) = Inr ''Summarise the report''"
    by (rule sample_render)
  show ?thesis
    using generate_invocation_failure[OF r sample_create_other, of world0]
    by (simp add: sample_settings)
qed

text \<open>
  Claim C3 asks for a non-empty error description on every invocation failure. A transport
  that times out with \<^verbatim>\<open>TimeoutError()\<close> gives the error \<^verbatim>\<open>""\<close>: present, and empty.
\<close>

theorem generate_timeout_empty_error:
  "messages_create timeout_env (create_request sample_ai ''Say hello'') =
     Inl (Exn (OtherException ''TimeoutError'') []) \<and>
   fst (generate timeout_env sample_ai ''Say hello'' None None world0) =
     Inr \<lparr> success = False, response = PyNone, error = Some [],
           metadata = Some [(''processing_time'', PyFloat 0x3FD0000000000000)],
           confidence_score = PyNone, reasoning_chain = PyNone, localized_elements = PyNone \<rparr>"
proof -
  have r: "render timeout_env sample_ai ''Say hello'' None
             (case None of None \<Rightarrow> [] | Some d \<Rightarrow> d) = Inr ''Say hello''"
    by (simp add: render_def)
  have c: "messages_create timeout_env (create_request sample_ai ''Say hello'') =
             Inl (Exn (OtherException ''TimeoutError'') [])"
    by (simp add: timeout_env_def)
  have "elapsed timeout_env = 0x3FD0000000000000"
    by (simp add: timeout_env_def sample_env_def)
  then show ?thesis
    using c by (simp add: generate_create_raises[OF r c] failure_result_def)
qed

section \<open>Text and error of a result\<close>

text \<open>
  Claim C4, as the code has it. In every record \<^verbatim>\<open>generate\<close> returns: when \<open>success\<close> is
  false the error is present and the text absent; when \<open>success\<close> is true the error is
  absent, and the text is present unless the reply decoded to an object whose
  \<^verbatim>\<open>primary_response\<close> is \<^verbatim>\<open>null\<close>.
\<close>

theorem generate_text_error_exclusive:
  assumes "fst (generate ev self ptext tn vars w) = Inr r"
  shows "(success r \<longrightarrow>
            error r = None \<and>
            (response r = PyNone \<longrightarrow>
               (\<exists>rendered blocks obj.
                  render ev self ptext tn (case vars of None \<Rightarrow> [] | Some d \<Rightarrow> d) = Inr rendered \<and>
                  messages_create ev (create_request self rendered) = Inr blocks \<and>
                  json_loads ev (joined_text blocks) = Inr (PyDict obj) \<and>
                  map_of obj ''primary_response'' = Some PyNone))) \<and>
         (\<not> success r \<longrightarrow> error r \<noteq> None \<and> response r = PyNone)"
proof -
  from generate_result_cases[OF assms]
  consider (failed) e where "r = failure_result ev e"
    | (replied) rendered blocks where
        "render ev self ptext tn (case vars of None \<Rightarrow> [] | Some d \<Rightarrow> d) = Inr rendered"
        "messages_create ev (create_request self rendered) = Inr blocks"
        "normalize ev self (joined_text blocks) = Inr r"
    by blast
  then show ?thesis
  proof cases
    case failed
    then show ?thesis by (simp add: failure_result_def)
  next
    case replied
    from normalize_returns[OF replied(3)]
    have s: "success r" and e: "error r = None"
      and t: "response r = PyStr (joined_text blocks) \<or>
              (\<exists>obj. json_loads ev (joined_text blocks) = Inr (PyDict obj) \<and>
                 response r = (case map_of obj ''primary_response'' of
                                 Some x \<Rightarrow> x | None \<Rightarrow> PyStr (joined_text blocks)))"
      by blast+
    have "\<exists>obj. json_loads ev (joined_text blocks) = Inr (PyDict obj) \<and>
                map_of obj ''primary_response'' = Some PyNone"
      if n: "response r = PyNone"
    proof -
      from t n obtain obj where o: "json_loads ev (joined_text blocks) = Inr (PyDict obj)"
        and g: "PyNone = (case map_of obj ''primary_response'' of
                           Some x \<Rightarrow> x | None \<Rightarrow> PyStr (joined_text blocks))"
        by auto
      from g have "map_of obj ''primary_response'' = Some PyNone"
        by (cases "map_of obj ''primary_response''") auto
      with o show ?thesis by blast
    qed
    with s e replied(1,2) show ?thesis by blast
  qed
qed

text \<open>A plain reply and a rejected call: one field is set in each.\<close>

theorem generate_text_error_exclusive_witness:
  "success (plain_result sample_env sample_ai ''Hello!'') \<and>
   error (plain_result sample_env sample_ai ''Hello!'') = None \<and>
   response (plain_result sample_env sample_ai ''Hello!'') = PyStr ''Hello!'' \<and>
   \<not> success (failure_result sample_env
        (Exn (OtherException ''AuthenticationError'') ''invalid x-api-key'')) \<and>
   error (failure_result sample_env
        (Exn (OtherException ''AuthenticationError'') ''invalid x-api-key'')) =
     Some ''invalid x-api-key'' \<and>
   response (failure_result sample_env
        (Exn (OtherException ''AuthenticationError'') ''invalid x-api-key'')) = PyNone"
  using generate_text_error_exclusive[OF sample_hello]
        generate_text_error_exclusive[OF sample_rejected]
  by (simp add: plain_result_def failure_result_def)

text \<open>
  Claim C4 says that exactly one of text and error is populated. On the reply
  \<^verbatim>\<open>{"primary_response": null}\<close> the result has \<open>success = True\<close> and neither.
\<close>

theorem generate_null_primary_response:
  "fst (generate sample_env sample_ai ''Return a null answer'' None None world0) =
     Inr \<lparr> success = True, response = PyNone, error = None,
           metadata = Some [(''processing_time'', PyFloat 0x3FD0000000000000),
                            (''model_used'', PyStr ''claude-4'')],
           confidence_score = PyNone, reasoning_chain = PyList [],
           localized_elements = PyList [] \<rparr>"
proof -
  have r: "render sample_env sample_ai ''Return a null answer'' None
             (case None of None \<Rightarrow> [] | Some d \<Rightarrow> d) = Inr ''Return a null answer''"
    by (rule sample_render)
  have c: "messages_create sample_env (create_request sample_ai ''Return a null answer'') =
             Inr [TextBlock reply_null]"
    by (simp add: sample_env_def sample_create_def create_request_def)
  have j: "json_loads sample_env (joined_text [TextBlock reply_null]) =
             Inr (PyDict [(''primary_response'', PyNone)])"
    by (simp add: joined_text_def sample_env_def sample_loads_def reply_json_def reply_null_def)
  show ?thesis
    by (simp add: generate_reply[OF r c] normalize_object[OF j] success_metadata_def
          sample_settings)
qed

section \<open>The template resolver\<close>

text \<open>
  Claim C5, as the code has it. When the template name is absent (\<^verbatim>\<open>None\<close>, or the empty
  string, which the code treats alike), or the template engine is not available, or
  \<^verbatim>\<open>Path.exists()\<close> returns \<^verbatim>\<open>False\<close> for the path
  \<^verbatim>\<open>Path(templates_dir) / f"{template_name}.poml"\<close>, \<^verbatim>\<open>_render\<close> returns the prompt unchanged
  and raises nothing. The path is what \<^verbatim>\<open>pathlib\<close> makes of the two parts: it lies outside
  the template directory when the name is absolute or climbs with \<^verbatim>\<open>..\<close>.
\<close>

theorem render_fallback:
  assumes "tn = None \<or> tn = Some [] \<or> \<not> HAS_POML ev \<or>
           (\<exists>name. tn = Some name \<and>
              path_exists ev (templates_dir (config self), name @ ''.poml'') = Inr False)"
  shows "render ev self ptext tn vars = Inr ptext"
  using assms by (auto simp: render_def split: option.splits)

text \<open>No template name; a name without the engine; a name with the engine and no file.\<close>

theorem render_fallback_witness:
  "render sample_env sample_ai ''Say hello'' None [(''tone'', PyStr ''brief'')] = Inr ''Say hello'' \<and>
   render sample_env sample_ai ''Say hello'' (Some ''code_review'') [] = Inr ''Say hello'' \<and>
   render poml_env sample_ai ''Say hello'' (Some ''code_review'') [] = Inr ''Say hello''"
proof -
  have a: "\<not> HAS_POML sample_env"
    by (simp add: sample_env_def)
  have b: "path_exists poml_env (templates_dir (config sample_ai), ''code_review'' @ ''.poml'')
             = Inr False"
    by (simp add: poml_env_def sample_env_def)
  show ?thesis
    using render_fallback[where tn = None and ev = sample_env and self = sample_ai
            and ptext = "''Say hello''" and vars = "[(''tone'', PyStr ''brief'')]"]
          render_fallback[where tn = "Some ''code_review''" and ev = sample_env and self = sample_ai
            and ptext = "''Say hello''" and vars = "[]"]
          render_fallback[where tn = "Some ''code_review''" and ev = poml_env and self = sample_ai
            and ptext = "''Say hello''" and vars = "[]"]
          a b
    by simp
qed

text \<open>
  Claim C5 says that the prompt comes back, and no error, whenever the named template file
  does not exist. No template file exists in \<open>longname_env\<close>; for a name of 300 characters
  the existence check raises \<^verbatim>\<open>OSError\<close> and \<^verbatim>\<open>_render\<close> raises it in turn.
\<close>

theorem render_long_name_raises:
  "path_exists longname_env (templates_dir (config sample_ai), long_name @ ''.poml'') =
     Inl (Exn (OtherException ''OSError'')
            (''[Errno 36] File name too long: '' @ squote @ ''templates/'' @ long_name @ ''.poml''
               @ squote)) \<and>
   render longname_env sample_ai ''Say hello'' (Some long_name) [] =
     Inl (Exn (OtherException ''OSError'')
            (''[Errno 36] File name too long: '' @ squote @ ''templates/'' @ long_name @ ''.poml''
               @ squote))"
proof -
  have n: "long_name \<noteq> []"
    by (simp add: long_name_def)
  have h: "HAS_POML longname_env"
    by (simp add: longname_env_def)
  have p: "path_exists longname_env (templates_dir (config sample_ai), long_name @ ''.poml'') =
     Inl (Exn (OtherException ''OSError'')
            (''[Errno 36] File name too long: '' @ squote @ ''templates/'' @ long_name @ ''.poml''
               @ squote))"
    by (simp add: longname_env_def long_name_def)
  show ?thesis
    using p by (simp add: render_exists_raises[OF n h p])
qed

section \<open>What generate hands back\<close>

text \<open>
  Claim C6, as the code has it. For every prompt, template name and variables, and
  whatever the collaborators do, \<^verbatim>\<open>generate\<close> propagates no exception that is an instance of
  \<^verbatim>\<open>Exception\<close>: a failure \<open>e\<close> of the rendering, of the model invocation or of the
  normalisation comes back as the record with \<open>success = False\<close>, the error \<^verbatim>\<open>str(e)\<close>, no
  text and the elapsed time as only metadata, and a reply comes back as the record the
  normalisation built. With no signal thrown into the call it always returns a record, that
  of \<open>generate\<close>. A signal outside the \<^verbatim>\<open>Exception\<close> hierarchy that arrives at the \<^verbatim>\<open>await\<close>
  (cancellation of the task, an interrupt) is not caught and reaches the caller.
\<close>

theorem generate_returns_unless_signalled:
  "fst (generate_awaiting ev self ptext tn vars thrown w) =
     (case render ev self ptext tn (case vars of None \<Rightarrow> [] | Some d \<Rightarrow> d) of
        Inl e \<Rightarrow>
          Inr \<lparr> success = False, response = PyNone, error = Some (exn_str e),
                metadata = Some [(''processing_time'', PyFloat (elapsed ev))],
                confidence_score = PyNone, reasoning_chain = PyNone,
                localized_elements = PyNone \<rparr>
      | Inr rendered \<Rightarrow>
          (case thrown of
             Some s \<Rightarrow> Inl (Signal s)
           | None \<Rightarrow>
               (case messages_create ev (create_request self rendered) of
                  Inl e \<Rightarrow>
                    Inr \<lparr> success = False, response = PyNone, error = Some (exn_str e),
                          metadata = Some [(''processing_time'', PyFloat (elapsed ev))],
                          confidence_score = PyNone, reasoning_chain = PyNone,
                          localized_elements = PyNone \<rparr>
                | Inr blocks \<Rightarrow>
                    (case normalize ev self (joined_text blocks) of
                       Inl e \<Rightarrow>
                         Inr \<lparr> success = False, response = PyNone, error = Some (exn_str e),
                               metadata = Some [(''processing_time'', PyFloat (elapsed ev))],
                               confidence_score = PyNone, reasoning_chain = PyNone,
                               localized_elements = PyNone \<rparr>
                     | Inr r \<Rightarrow> Inr r)))) \<and>
   (\<forall>e. fst (generate_awaiting ev self ptext tn vars thrown w) \<noteq> Inl (Failure e)) \<and>
   (thrown = None \<longrightarrow>
      (\<exists>r. generate_awaiting ev self ptext tn vars thrown w =
             (Inr r, snd (generate ev self ptext tn vars w)) \<and>
           fst (generate ev self ptext tn vars w) = Inr r))"
proof -
  have a: "fst (generate_awaiting ev self ptext tn vars thrown w) =
     (case render ev self ptext tn (case vars of None \<Rightarrow> [] | Some d \<Rightarrow> d) of
        Inl e \<Rightarrow> Inr (failure_result ev e)
      | Inr rendered \<Rightarrow>
          (case thrown of
             Some s \<Rightarrow> Inl (Signal s)
           | None \<Rightarrow>
               (case messages_create ev (create_request self rendered) of
                  Inl e \<Rightarrow> Inr (failure_result ev e)
                | Inr blocks \<Rightarrow>
                    (case normalize ev self (joined_text blocks) of
                       Inl e \<Rightarrow> Inr (failure_result ev e)
                     | Inr r \<Rightarrow> Inr r))))"
  proof (cases "render ev self ptext tn (case vars of None \<Rightarrow> [] | Some d \<Rightarrow> d)")
    case (Inl e)
    then show ?thesis
      by (simp add: generate_awaiting_def generate_try_awaiting_def try_except_def
            isinstance_Exception_def)
  next
    case rendered: (Inr rendered)
    show ?thesis
    proof (cases thrown)
      case (Some s)
      with rendered show ?thesis
        by (simp add: generate_awaiting_def generate_try_awaiting_def try_except_def
              and_then_def awaited_def isinstance_Exception_def)
    next
      case None
      show ?thesis
      proof (cases "messages_create ev (create_request self rendered)")
        case (Inl e)
        with rendered None show ?thesis
          by (simp add: generate_awaiting_def generate_try_awaiting_def try_except_def
                and_then_def awaited_def propagate_def isinstance_Exception_def)
      next
        case (Inr blocks)
        with rendered None show ?thesis
          by (cases "normalize ev self (joined_text blocks)")
             (simp_all add: generate_awaiting_def generate_try_awaiting_def try_except_def
                and_then_def awaited_def propagate_def isinstance_Exception_def)
      qed
    qed
  qed
  have b: "fst (generate_awaiting ev self ptext tn vars thrown w) \<noteq> Inl (Failure e)" for e
    by (simp add: a split: sum.splits option.splits)
  have c: "\<exists>r. generate_awaiting ev self ptext tn vars thrown w =
             (Inr r, snd (generate ev self ptext tn vars w)) \<and>
           fst (generate ev self ptext tn vars w) = Inr r"
    if "thrown = None"
  proof -
    obtain r where r: "fst (generate ev self ptext tn vars w) = Inr r"
      using generate_returns by blast
    then show ?thesis
      using that
      by (cases "generate ev self ptext tn vars w")
         (simp add: generate_awaiting_unthrown propagate_def)
  qed
  show ?thesis
    using a b c by (simp add: failure_result_def split: sum.splits option.splits)
qed

text \<open>A request the remote service rejects; a named template without the engine and a timeout.\<close>

theorem generate_returns_unless_signalled_witness:
  "fst (generate_awaiting sample_env sample_ai ''Summarise the report'' None None None world0) =
     Inr \<lparr> success = False, response = PyNone, error = Some ''invalid x-api-key'',
           metadata = Some [(''processing_time'', PyFloat 0x3FD0000000000000)],
           confidence_score = PyNone, reasoning_chain = PyNone, localized_elements = PyNone \<rparr> \<and>
   fst (generate_awaiting timeout_env sample_ai ''Say hello'' (Some ''code_review'') None None
          world0) =
     Inr \<lparr> success = False, response = PyNone, error = Some [],
           metadata = Some [(''processing_time'', PyFloat 0x3FD0000000000000)],
           confidence_score = PyNone, reasoning_chain = PyNone, localized_elements = PyNone \<rparr>"
proof -
  have r1: "render sample_env sample_ai ''Summarise the report'' None [] =
              Inr ''Summarise the report''"
    by (rule sample_render)
  have r2: "render timeout_env sample_ai ''Say hello'' (Some ''code_review'') [] = Inr ''Say hello''"
    by (simp add: render_def timeout_env_def sample_env_def)
  have c2: "messages_create timeout_env (create_request sample_ai ''Say hello'') =
              Inl (Exn (OtherException ''TimeoutError'') [])"
    by (simp add: timeout_env_def)
  have e2: "elapsed timeout_env = 0x3FD0000000000000"
    by (simp add: timeout_env_def sample_env_def)
  show ?thesis
    using generate_returns_unless_signalled[where ev = sample_env and self = sample_ai
            and ptext = "''Summarise the report''" and tn = None and vars = None
            and thrown = None and w = world0]
          generate_returns_unless_signalled[where ev = timeout_env and self = sample_ai
            and ptext = "''Say hello''" and tn = "Some ''code_review''" and vars = None
            and thrown = None and w = world0]
    by (simp add: r1 r2 c2 e2 sample_create_other sample_settings)
qed

text \<open>
  Claim C6 says that \<^verbatim>\<open>generate\<close> never propagates an exception. When its task is cancelled
  while it awaits the reply, the request has been sent and \<^verbatim>\<open>CancelledError\<close> leaves the call.
\<close>

theorem generate_cancelled_propagates:
  "generate_awaiting sample_env sample_ai ''Say hello'' None None (Some CancelledError) world0 =
     (Inl (Signal CancelledError),
      \<lparr> requests =
          [\<lparr> create_params.model = ''claude-4'', create_params.max_tokens = 100000,
              create_params.temperature = 0x3FE6666666666666,
              messages = [(''user'', ''Say hello'')] \<rparr>],
        mkdirs = [] \<rparr>)"
  by (simp add: generate_awaiting_def generate_try_awaiting_def sample_render try_except_def
        and_then_def awaited_def isinstance_Exception_def create_request_def sample_settings
        world0_def)

section \<open>orchestrate\<close>

text \<open>
  Claim C7. When the underlying \<^verbatim>\<open>generate\<close> call returns a result with \<open>success = False\<close>,
  \<^verbatim>\<open>orchestrate\<close> raises an \<^verbatim>\<open>Exception\<close> carrying the result's error (or
  \<^verbatim>\<open>Orchestration failed\<close> when that is missing or empty); it returns no
  \<open>OrchestrationResponse\<close>.
\<close>

theorem orchestrate_raises_on_failure:
  assumes "fst (generate ev self (OrchestrationRequest.prompt request)
                  (OrchestrationRequest.template_name request)
                  (Some (merged_variables request)) w) = Inr result"
      and "\<not> success result"
  shows "fst (orchestrate ev self request w) =
           Inl (Exn PlainException (failure_message (error result)))"
  using assms by (cases "generate ev self (OrchestrationRequest.prompt request)
                  (OrchestrationRequest.template_name request)
                  (Some (merged_variables request)) w") (simp add: orchestrate_def)

text \<open>The legacy request, sent with a prompt the remote service rejects.\<close>

theorem orchestrate_raises_on_failure_witness:
  "fst (orchestrate sample_env sample_ai
          (sample_request\<lparr>OrchestrationRequest.prompt := ''Summarise the report''\<rparr>) world0) =
     Inl (Exn PlainException ''invalid x-api-key'')"
proof -
  let ?rq = "sample_request\<lparr>OrchestrationRequest.prompt := ''Summarise the report''\<rparr>"
  let ?res = "failure_result sample_env
                (Exn (OtherException ''AuthenticationError'') ''invalid x-api-key'')"
  have g: "fst (generate sample_env sample_ai (OrchestrationRequest.prompt ?rq)
                  (OrchestrationRequest.template_name ?rq) (Some (merged_variables ?rq)) world0) =
             Inr ?res"
    by (simp add: generate_create_raises[OF sample_render sample_create_other])
  have f: "\<not> success ?res"
    by (simp add: failure_result_def)
  show ?thesis
    using orchestrate_raises_on_failure[OF g f]
    by (simp add: failure_result_def failure_message_def)
qed

section \<open>Construction\<close>

text \<open>
  Claim C8. Constructing the orchestrator with an empty API key, given in the configuration
  or missing from (or empty in) the environment when the default configuration is taken,
  raises \<^verbatim>\<open>ValueError\<close> from the validation inside the constructor: no orchestrator comes
  to exist, no request has been sent and no directory made.
\<close>

theorem init_requires_api_key:
  assumes "case cfg_opt of
             Some cfg \<Rightarrow> anthropic_api_key cfg = []
           | None \<Rightarrow> getenv ev ''ANTHROPIC_API_KEY'' = None \<or>
                      getenv ev ''ANTHROPIC_API_KEY'' = Some []"
  shows "init ev cfg_opt w = (Inl (Exn ValueError ''ANTHROPIC_API_KEY is required''), w)"
  using assms
  by (auto simp: init_def validate_def default_config_def getenv_default_def Let_def
           split: option.splits)

text \<open>The variable unset with the default configuration; an explicit empty key.\<close>

theorem init_requires_api_key_witness:
  "init sample_env None world0 = (Inl (Exn ValueError ''ANTHROPIC_API_KEY is required''), world0) \<and>
   init sample_env (Some (sample_config\<lparr>anthropic_api_key := []\<rparr>)) world0 =
     (Inl (Exn ValueError ''ANTHROPIC_API_KEY is required''), world0)"
proof -
  have a: "getenv sample_env ''ANTHROPIC_API_KEY'' = None"
    by (simp add: sample_env_def)
  show ?thesis
    using init_requires_api_key[where cfg_opt = None and ev = sample_env and w = world0]
          init_requires_api_key[where cfg_opt = "Some (sample_config\<lparr>anthropic_api_key := []\<rparr>)"
            and ev = sample_env and w = world0]
          a
    by simp
qed

section \<open>Per-call overrides\<close>

lemma merged_variables_overrides:
  "merged_variables (request\<lparr>OrchestrationRequest.max_tokens := mt,
                              OrchestrationRequest.temperature := t\<rparr>) = merged_variables request"
  by (simp add: merged_variables_def)

lemma orchestrate_world:
  "snd (orchestrate ev self request w) =
     snd (generate ev self (OrchestrationRequest.prompt request)
            (OrchestrationRequest.template_name request) (Some (merged_variables request)) w)"
  by (simp add: orchestrate_def split: prod.splits sum.splits)

text \<open>
  Claim C9. \<^verbatim>\<open>orchestrate\<close> does not read the request's \<open>max_tokens\<close> and \<open>temperature\<close>:
  changing them changes neither its outcome nor its effects, and the request it sends to
  the model (one, when rendering succeeds) carries the configured token budget and
  temperature.
\<close>

theorem orchestrate_ignores_overrides:
  "orchestrate ev self (request\<lparr>OrchestrationRequest.max_tokens := mt,
                                OrchestrationRequest.temperature := t\<rparr>) w =
     orchestrate ev self request w \<and>
   requests (snd (orchestrate ev self request w)) =
     requests w @
       (case render ev self (OrchestrationRequest.prompt request)
               (OrchestrationRequest.template_name request) (merged_variables request) of
          Inl e \<Rightarrow> []
        | Inr rendered \<Rightarrow>
            [\<lparr> create_params.model = claude_model (config self),
                create_params.max_tokens = IntegratedConfig.max_tokens (config self),
                create_params.temperature = IntegratedConfig.temperature (config self),
                messages = [(''user'', rendered)] \<rparr>])"
proof -
  have "orchestrate ev self (request\<lparr>OrchestrationRequest.max_tokens := mt,
                                     OrchestrationRequest.temperature := t\<rparr>) w =
          orchestrate ev self request w"
    by (simp add: orchestrate_def merged_variables_overrides split: prod.splits sum.splits)
  moreover have "requests (snd (orchestrate ev self request w)) =
     requests w @
       (case render ev self (OrchestrationRequest.prompt request)
               (OrchestrationRequest.template_name request) (merged_variables request) of
          Inl e \<Rightarrow> []
        | Inr rendered \<Rightarrow> [create_request self rendered])"
    by (simp add: orchestrate_world generate_requests)
  ultimately show ?thesis
    by (simp add: create_request_def split: sum.splits)
qed

text \<open>A request asking for 16 tokens at temperature 1.0 is sent with 100000 and 0.7.\<close>

theorem orchestrate_ignores_overrides_witness:
  "OrchestrationRequest.max_tokens sample_request = Some 16 \<and>
   OrchestrationRequest.temperature sample_request = Some 0x3FF0000000000000 \<and>
   orchestrate sample_env sample_ai sample_request world0 =
     orchestrate sample_env sample_ai
       (sample_request\<lparr>OrchestrationRequest.max_tokens := None,
                         OrchestrationRequest.temperature := None\<rparr>) world0 \<and>
   requests (snd (orchestrate sample_env sample_ai sample_request world0)) =
     [\<lparr> create_params.model = ''claude-4'', create_params.max_tokens = 100000,
         create_params.temperature = 0x3FE6666666666666,
         messages = [(''user'', ''Return JSON'')] \<rparr>]"
proof -
  have r: "render sample_env sample_ai (OrchestrationRequest.prompt sample_request)
             (OrchestrationRequest.template_name sample_request)
             (merged_variables sample_request) = Inr ''Return JSON''"
    by (simp add: sample_render) (simp add: sample_request_def)
  show ?thesis
    using orchestrate_ignores_overrides[where ev = sample_env and self = sample_ai
            and request = sample_request and mt = None and t = None and w = world0]
    by (simp add: r sample_settings world0_def) (simp add: sample_request_def)
qed

section \<open>The /orchestrate endpoint\<close>

text \<open>
  Claim C10. The handler of \<^verbatim>\<open>POST /orchestrate\<close> calls \<^verbatim>\<open>generate\<close> itself and never raises:
  it always returns a dictionary, its effects are those of the \<^verbatim>\<open>generate\<close> call, and when
  generation failed the dictionary holds \<^verbatim>\<open>None\<close> as content, zero usage counters, the
  configured model, no tools, and the failure's metadata (the elapsed time alone).
\<close>

theorem service_orchestrate_never_raises:
  "(\<exists>d. fst (service_orchestrate ev cfg ai p w) = Inr d) \<and>
   snd (service_orchestrate ev cfg ai p w) =
     snd (generate ev ai (prompt p) (template_name p) (variables p) w) \<and>
   (\<forall>res. fst (generate ev ai (prompt p) (template_name p) (variables p) w) = Inr res \<and>
          \<not> success res \<longrightarrow>
      fst (service_orchestrate ev cfg ai p w) =
        Inr [(''content'', PyNone),
             (''usage'', PyDict [(''input_tokens'', PyInt 0), (''output_tokens'', PyInt 0)]),
             (''model'', PyStr (claude_model cfg)),
             (''tools_used'', PyList []),
             (''metadata'', PyDict [(''processing_time'', PyFloat (elapsed ev))]),
             (''confidence_score'', PyNone),
             (''reasoning_chain'', PyNone)])"
proof -
  obtain r where g: "fst (generate ev ai (prompt p) (template_name p) (variables p) w) = Inr r"
    using generate_returns by blast
  then have s: "service_orchestrate ev cfg ai p w =
     (Inr [(''content'', response r),
           (''usage'', PyDict [(''input_tokens'', PyInt 0), (''output_tokens'', PyInt 0)]),
           (''model'', PyStr (claude_model cfg)),
           (''tools_used'', PyList []),
           (''metadata'',
              PyDict (case IntegratedResponse.metadata r of None \<Rightarrow> [] | Some m \<Rightarrow> m)),
           (''confidence_score'', IntegratedResponse.confidence_score r),
           (''reasoning_chain'', IntegratedResponse.reasoning_chain r)],
      snd (generate ev ai (prompt p) (template_name p) (variables p) w))"
    by (cases "generate ev ai (prompt p) (template_name p) (variables p) w")
       (simp add: service_orchestrate_def)
  have "fst (service_orchestrate ev cfg ai p w) =
        Inr [(''content'', PyNone),
             (''usage'', PyDict [(''input_tokens'', PyInt 0), (''output_tokens'', PyInt 0)]),
             (''model'', PyStr (claude_model cfg)),
             (''tools_used'', PyList []),
             (''metadata'', PyDict [(''processing_time'', PyFloat (elapsed ev))]),
             (''confidence_score'', PyNone),
             (''reasoning_chain'', PyNone)]"
    if f: "\<not> success r"
  proof -
    from generate_failed_shape[OF g f] obtain e where "r = failure_result ev e" ..
    then show ?thesis by (simp add: s failure_result_def)
  qed
  with g s show ?thesis by auto
qed

text \<open>A request the remote service rejects: the handler returns the record all the same.\<close>

theorem service_orchestrate_never_raises_witness:
  "fst (generate sample_env sample_ai ''Summarise the report'' None None world0) =
     Inr (failure_result sample_env
            (Exn (OtherException ''AuthenticationError'') ''invalid x-api-key'')) \<and>
   fst (service_orchestrate sample_env sample_config sample_ai
          \<lparr> prompt = ''Summarise the report'', template_name = None, variables = None \<rparr> world0) =
     Inr [(''content'', PyNone),
          (''usage'', PyDict [(''input_tokens'', PyInt 0), (''output_tokens'', PyInt 0)]),
          (''model'', PyStr ''claude-4''),
          (''tools_used'', PyList []),
          (''metadata'', PyDict [(''processing_time'', PyFloat 0x3FD0000000000000)]),
          (''confidence_score'', PyNone),
          (''reasoning_chain'', PyNone)]"
proof -
  have f: "\<not> success (failure_result sample_env
            (Exn (OtherException ''AuthenticationError'') ''invalid x-api-key''))"
    by (simp add: failure_result_def)
  have m: "claude_model sample_config = ''claude-4''"
    using sample_settings(1) by (simp add: sample_ai_def)
  show ?thesis
    using service_orchestrate_never_raises[of sample_env sample_config sample_ai
            "\<lparr> prompt = ''Summarise the report'', template_name = None, variables = None \<rparr>" world0]
          sample_rejected f
    by (simp add: m sample_settings)
qed

end
